theory Spec2Isabelle
  imports Complex_Main
begin

section \<open>Values of the host language\<close>

text \<open>
  The module under verification is \<^verbatim>\<open>gesture_classification/model.py\<close>, a
  PyTorch-Lightning wrapper \<^verbatim>\<open>LitModel\<close>.  Python exceptions are values of the
  type \<open>error\<close>; a function that may raise returns \<open>error + 'a\<close>.  Tensor
  elements are floating-point numbers in the program; here they are exact rationals,
  so rounding is outside the model.
\<close>

datatype error =
    UnboundLocalError string
  | EinopsError
  | IndexError
  | AttributeError
  | TypeError
  | RuntimeError

text \<open>
  The values a configuration argument such as \<^verbatim>\<open>use_keypoints\<close> can hold
  (the docstring allows an int or a str), with Python's \<^verbatim>\<open>==\<close> between them:
  booleans and numbers compare by their numeric value (\<^verbatim>\<open>False == 0\<close>,
  \<^verbatim>\<open>True == 1\<close>), a string equals only the same string.
\<close>

datatype pyval = PNone | PBool bool | PInt int | PFloat rat | PStr string

fun num_of :: "pyval \<Rightarrow> rat option" where
  "num_of (PBool b) = Some (if b then 1 else 0)"
| "num_of (PInt i) = Some (of_int i)"
| "num_of (PFloat r) = Some r"
| "num_of _ = None"

definition py_eq :: "pyval \<Rightarrow> pyval \<Rightarrow> bool" where
  "py_eq a b =
     (case (num_of a, num_of b) of
        (Some x, Some y) \<Rightarrow> x = y
      | (None, None) \<Rightarrow> a = b
      | _ \<Rightarrow> False)"

text \<open>\<^verbatim>\<open>v in xs\<close> for a Python list: some element equals \<open>v\<close>.\<close>

definition py_in :: "pyval \<Rightarrow> pyval list \<Rightarrow> bool" where
  "py_in v xs = list_ex (py_eq v) xs"

section \<open>Tensors\<close>

text \<open>
  A tensor is its shape and its elements, read by a multi-index.  Only the indices
  inside the shape mean anything.
\<close>

record tensor =
  dims :: "nat list"
  elem :: "nat list \<Rightarrow> rat"

subsection \<open>einops.rearrange, for patterns that permute axes\<close>

fun tokens :: "string \<Rightarrow> string \<Rightarrow> string list" where
  "tokens acc [] = (if acc = [] then [] else [rev acc])"
| "tokens acc (c # cs) =
     (if c = CHR '' ''
      then (if acc = [] then tokens [] cs else rev acc # tokens [] cs)
      else tokens (c # acc) cs)"

fun index_of :: "'a \<Rightarrow> 'a list \<Rightarrow> nat" where
  "index_of a [] = 0"
| "index_of a (b # bs) = (if a = b then 0 else Suc (index_of a bs))"

text \<open>
  \<^verbatim>\<open>rearrange(x, "src -> dst")\<close>: the axes of \<open>x\<close> are named by \<open>src\<close>, the result
  has them in the order \<open>dst\<close>.  A pattern whose left side does not have one name per
  axis of \<open>x\<close>, or whose two sides do not name the same axes once each, is refused
  (einops raises an EinopsError).
\<close>

definition rearrange :: "tensor \<Rightarrow> string \<Rightarrow> error + tensor" where
  "rearrange x pattern =
     (let ws = tokens [] pattern;
          src = takeWhile (\<lambda>w. w \<noteq> ''->'') ws;
          dst = drop 1 (dropWhile (\<lambda>w. w \<noteq> ''->'') ws)
      in if length src = length (dims x) \<and> distinct src \<and> distinct dst
            \<and> length dst = length src \<and> list_all (\<lambda>n. n \<in> set src) dst
         then Inr \<lparr> dims = map (\<lambda>n. dims x ! index_of n src) dst,
                    elem = (\<lambda>i. elem x (map (\<lambda>n. i ! index_of n dst) src)) \<rparr>
         else Inl EinopsError)"

subsection \<open>Slices and element-wise operations\<close>

text \<open>\<^verbatim>\<open>x[:n]\<close>: the first \<open>n\<close> entries along the leading axis (a 0-d tensor cannot be sliced).\<close>

definition getitem_to :: "nat \<Rightarrow> tensor \<Rightarrow> error + tensor" where
  "getitem_to n t =
     (case dims t of
        [] \<Rightarrow> Inl IndexError
      | d # ds \<Rightarrow> Inr \<lparr> dims = min n d # ds, elem = elem t \<rparr>)"

text \<open>\<^verbatim>\<open>x[:n] = v\<close>: writes \<open>v\<close> over the first \<open>n\<close> entries along the leading axis of \<open>x\<close>.\<close>

definition setitem_to :: "nat \<Rightarrow> tensor \<Rightarrow> tensor \<Rightarrow> tensor" where
  "setitem_to n t v =
     t \<lparr> elem := (\<lambda>i. case i of
                       [] \<Rightarrow> elem t i
                     | b # r \<Rightarrow> if b < min n (hd (dims t)) then elem v i else elem t i) \<rparr>"

text \<open>\<^verbatim>\<open>t - c\<close> for a scalar \<open>c\<close>: a new tensor.\<close>

definition sub_scalar :: "tensor \<Rightarrow> rat \<Rightarrow> tensor" where
  "sub_scalar t c = t \<lparr> elem := (\<lambda>i. elem t i - c) \<rparr>"

definition map_tensor :: "(rat \<Rightarrow> rat) \<Rightarrow> tensor \<Rightarrow> tensor" where
  "map_tensor f t = t \<lparr> elem := (\<lambda>i. f (elem t i)) \<rparr>"

text \<open>
  What a call of the backbone returns: a plain tensor, or (the Hugging Face classifier)
  a structured result with a \<^verbatim>\<open>logits\<close> field.
\<close>

datatype model_output = Tensor tensor | ClassifierOutput tensor

text \<open>\<^verbatim>\<open>out[:,0]\<close>: column 0 along the second axis.\<close>

definition select_col0 :: "model_output \<Rightarrow> error + tensor" where
  "select_col0 out =
     (case out of
        ClassifierOutput l \<Rightarrow> Inl TypeError
      | Tensor t \<Rightarrow>
          if length (dims t) < 2 then Inl IndexError
          else if dims t ! 1 = 0 then Inl IndexError
          else Inr \<lparr> dims = hd (dims t) # drop 2 (dims t),
                     elem = (\<lambda>i. case i of [] \<Rightarrow> elem t [] | b # r \<Rightarrow> elem t (b # 0 # r)) \<rparr>)"

text \<open>The entries of a 1-d tensor, in order.\<close>

definition entries :: "tensor \<Rightarrow> rat list" where
  "entries t = map (\<lambda>k. elem t [k]) [0..<hd (dims t)]"

section \<open>Metric accumulators (torchmetrics, binary classification)\<close>

text \<open>
  Each of the five metrics accumulates the counts of true and false positives and
  negatives and computes a ratio from them (0 when the denominator is 0).
\<close>

datatype metric_kind = Precision | Accuracy | Recall | F1Score | JaccardIndex

record metric =
  kind :: metric_kind
  tp :: nat
  fp :: nat
  tn :: nat
  fn :: nat

definition new_metric :: "metric_kind \<Rightarrow> metric" where
  "new_metric k = \<lparr> kind = k, tp = 0, fp = 0, tn = 0, fn = 0 \<rparr>"

definition safe_divide :: "nat \<Rightarrow> nat \<Rightarrow> rat" where
  "safe_divide n d = (if d = 0 then 0 else of_nat n / of_nat d)"

fun metric_value :: "metric_kind \<Rightarrow> nat \<Rightarrow> nat \<Rightarrow> nat \<Rightarrow> nat \<Rightarrow> rat" where
  "metric_value Precision p q n m = safe_divide p (p + q)"
| "metric_value Accuracy p q n m = safe_divide (p + n) (p + q + n + m)"
| "metric_value Recall p q n m = safe_divide p (p + m)"
| "metric_value F1Score p q n m = safe_divide (2 * p) (2 * p + q + m)"
| "metric_value JaccardIndex p q n m = safe_divide p (p + q + m)"

text \<open>
  The counts of one batch.  Predictions and targets must have one shape and the targets
  must be 0 or 1 (a RuntimeError otherwise); predictions outside [0, 1] are taken for
  logits and passed through the sigmoid; a prediction above 0.5 counts as positive.
\<close>

definition binary_stat_scores ::
  "(rat \<Rightarrow> rat) \<Rightarrow> tensor \<Rightarrow> int list \<Rightarrow> error + (nat \<times> nat \<times> nat \<times> nat)" where
  "binary_stat_scores sg probs y =
     (if dims probs \<noteq> [length y] \<or> \<not> list_all (\<lambda>v. v = 0 \<or> v = 1) y
      then Inl RuntimeError
      else
        let ps = entries probs;
            ps' = (if list_all (\<lambda>p. 0 \<le> p \<and> p \<le> 1) ps then ps else map sg ps);
            hits = zip (map (\<lambda>p. 1 / 2 < p) ps') (map (\<lambda>v. v = 1) y)
        in Inr (length (filter (\<lambda>(p, t). p \<and> t) hits),
                length (filter (\<lambda>(p, t). p \<and> \<not> t) hits),
                length (filter (\<lambda>(p, t). \<not> p \<and> \<not> t) hits),
                length (filter (\<lambda>(p, t). \<not> p \<and> t) hits)))"

text \<open>\<^verbatim>\<open>m.update(preds, target)\<close> adds the batch's counts and returns \<^verbatim>\<open>None\<close>.\<close>

definition metric_update :: "metric \<Rightarrow> nat \<times> nat \<times> nat \<times> nat \<Rightarrow> pyval \<times> metric" where
  "metric_update m st =
     (case st of (p, q, n, k) \<Rightarrow>
        (PNone, m \<lparr> tp := tp m + p, fp := fp m + q, tn := tn m + n, fn := fn m + k \<rparr>))"

text \<open>
  \<^verbatim>\<open>m(preds, target)\<close> (the metric's forward) adds the batch's counts too, and returns
  the metric's value on this batch alone.
\<close>

definition metric_forward :: "metric \<Rightarrow> nat \<times> nat \<times> nat \<times> nat \<Rightarrow> rat \<times> metric" where
  "metric_forward m st =
     (case st of (p, q, n, k) \<Rightarrow>
        (metric_value (kind m) p q n k, snd (metric_update m st)))"

definition metric_compute :: "metric \<Rightarrow> rat" where
  "metric_compute m = metric_value (kind m) (tp m) (fp m) (tn m) (fn m)"

definition metric_reset :: "metric \<Rightarrow> metric" where
  "metric_reset m = m \<lparr> tp := 0, fp := 0, tn := 0, fn := 0 \<rparr>"

section \<open>The wrapper\<close>

text \<open>The three backbones, with the arguments \<^verbatim>\<open>configure_model\<close> builds them from.\<close>

datatype backbone =
    TimeSformer nat nat int string string int
  | R2Plus1D nat nat
  | VideoMAE string int bool nat

text \<open>
  The number of outputs per sample of a backbone, as the external libraries build it:
  \<^verbatim>\<open>num_classes\<close> of the TimeSformer, the output features of the linear layer put in
  place of \<^verbatim>\<open>fc\<close> in r2plus1d_18, \<^verbatim>\<open>num_labels\<close> of the VideoMAE classifier.
\<close>

fun head_width :: "backbone \<Rightarrow> nat" where
  "head_width (TimeSformer img_size num_classes num_frames attention_type pretrained in_chans)
     = num_classes"
| "head_width (R2Plus1D in_features out_features) = out_features"
| "head_width (VideoMAE checkpoint num_frames qkv_bias num_labels) = num_labels"

datatype optimizer = Adam rat rat

datatype scheduler = MultiStepLR optimizer "int list" rat

text \<open>
  What the module takes from outside: the network a backbone computes, torch's sigmoid
  and the loss factory of \<^verbatim>\<open>loss_helpers\<close> (a module of the repository that is not
  among its sources; it maps a loss name and the focal gamma to a loss on the logits and
  the float labels).  They are parameters of the model.
\<close>

record externals =
  net :: "backbone \<Rightarrow> tensor \<Rightarrow> tensor"
  sigmoid :: "rat \<Rightarrow> rat"
  loss_function :: "string \<Rightarrow> rat \<Rightarrow> tensor \<Rightarrow> rat list \<Rightarrow> rat"

text \<open>
  The attributes of a \<^verbatim>\<open>LitModel\<close> object.  \<open>logged\<close> holds what the object has passed
  to \<^verbatim>\<open>self.log\<close>, oldest first.  \<^verbatim>\<open>self.normalize\<close> and \<^verbatim>\<open>self.reshape\<close> are the
  methods \<^verbatim>\<open>_normalize\<close> and \<^verbatim>\<open>_reshape\<close> bound to the object.
\<close>

record LitModel =
  model_name :: string
  learning_rate :: rat
  weight_decay :: rat
  model :: backbone
  scheduler_name :: string
  scheduler_milestones :: "int list"
  scheduler_gamma :: rat
  criterion :: "tensor \<Rightarrow> rat list \<Rightarrow> rat"
  train_precision :: metric
  train_accuracy :: metric
  train_recall :: metric
  train_f1 :: metric
  train_iou :: metric
  val_precision :: metric
  val_accuracy :: metric
  val_recall :: metric
  val_f1 :: metric
  val_iou :: metric
  use_keypoints :: pyval
  logged :: "(string \<times> rat) list"

subsection \<open>Construction\<close>

text \<open>
  Lines 195-200 of \<^verbatim>\<open>configure_model\<close>: the local \<^verbatim>\<open>in_chans\<close> after the
  \<^verbatim>\<open>if/elif/elif\<close> chain; \<open>None\<close> when no branch has bound it.
\<close>

definition in_chans_of :: "pyval \<Rightarrow> int option" where
  "in_chans_of uk =
     (if py_eq uk (PBool False) then Some 3
      else if py_eq uk (PBool True) then Some 4
      else if py_eq uk (PStr ''only'') then Some 1
      else None)"

text \<open>
  Reading a local that no branch has bound raises Python's UnboundLocalError.  The
  constructors of the external backbones are taken to succeed.
\<close>

definition configure_model :: "string \<Rightarrow> string \<Rightarrow> pyval \<Rightarrow> int \<Rightarrow> error + backbone" where
  "configure_model mname pretrained_model uk num_frames =
     (let in_chans = in_chans_of uk in
      if mname = ''timesformer'' then
        (case in_chans of
           None \<Rightarrow> Inl (UnboundLocalError ''in_chans'')
         | Some c \<Rightarrow>
             Inr (TimeSformer 224 1 num_frames ''divided_space_time'' pretrained_model c))
      else if mname = ''r2plus1'' then Inr (R2Plus1D 512 1)
      else if mname = ''videomae'' then
        Inr (VideoMAE ''MCG-NJU/videomae-base-finetuned-ssv2'' num_frames False 1)
      else Inl (UnboundLocalError ''model''))"

definition configure_scheduler ::
  "optimizer \<Rightarrow> string \<Rightarrow> int list \<Rightarrow> rat \<Rightarrow> error + scheduler" where
  "configure_scheduler opt sname scheduler_milstones gamma =
     (if sname = ''multi-step-lr'' then Inr (MultiStepLR opt scheduler_milstones gamma)
      else Inl (UnboundLocalError ''scheduler''))"

text \<open>The result of \<^verbatim>\<open>configure_optimizers\<close>: optimizer, scheduler, interval, frequency.\<close>

definition configure_optimizers ::
  "LitModel \<Rightarrow> error + (optimizer \<times> scheduler \<times> string \<times> nat)" where
  "configure_optimizers self =
     (let opt = Adam (learning_rate self) (weight_decay self) in
      case configure_scheduler opt (scheduler_name self) (scheduler_milestones self)
             (scheduler_gamma self) of
        Inl e \<Rightarrow> Inl e
      | Inr sch \<Rightarrow> Inr (opt, sch, ''epoch'', 1))"

text \<open>\<^verbatim>\<open>LitModel.__init__\<close>.\<close>

definition init ::
  "externals \<Rightarrow> string \<Rightarrow> string \<Rightarrow> int \<Rightarrow> rat \<Rightarrow> rat \<Rightarrow> string \<Rightarrow> rat \<Rightarrow> string \<Rightarrow> int list
     \<Rightarrow> rat \<Rightarrow> pyval \<Rightarrow> error + LitModel" where
  "init ext mname pretrained_model num_frames lr wd loss_function_name focal_gamma
        sname milestones gamma uk =
     (case configure_model mname pretrained_model uk num_frames of
        Inl e \<Rightarrow> Inl e
      | Inr m \<Rightarrow>
          Inr \<lparr> model_name = mname, learning_rate = lr, weight_decay = wd, model = m,
                scheduler_name = sname, scheduler_milestones = milestones,
                scheduler_gamma = gamma,
                criterion = loss_function ext loss_function_name focal_gamma,
                train_precision = new_metric Precision,
                train_accuracy = new_metric Accuracy,
                train_recall = new_metric Recall,
                train_f1 = new_metric F1Score,
                train_iou = new_metric JaccardIndex,
                val_precision = new_metric Precision,
                val_accuracy = new_metric Accuracy,
                val_recall = new_metric Recall,
                val_f1 = new_metric F1Score,
                val_iou = new_metric JaccardIndex,
                use_keypoints = uk, logged = [] \<rparr>)"

subsection \<open>Input adapters\<close>

text \<open>
  Tensors are objects: a variable holds a reference, and an assignment through a slice
  writes into the object every holder of the reference sees.  The store maps references
  to the tensors they denote.
\<close>

type_synonym ref = nat
type_synonym store = "ref \<Rightarrow> tensor"

text \<open>
  \<^verbatim>\<open>_normalize\<close>: \<^verbatim>\<open>x[:3] = x[:3] - 0.5\<close> builds the difference as a new tensor and
  writes it into the object \<open>x\<close> refers to; the method returns the reference it was given.
\<close>

definition normalize_tensor :: "LitModel \<Rightarrow> ref \<Rightarrow> store \<Rightarrow> error + (ref \<times> store)" where
  "normalize_tensor self x \<sigma> =
     (if py_in (use_keypoints self) [PInt 0, PInt 1] then
        (case getitem_to 3 (\<sigma> x) of
           Inl e \<Rightarrow> Inl e
         | Inr s \<Rightarrow> Inr (x, \<sigma>(x := setitem_to 3 (\<sigma> x) (sub_scalar s (1 / 2)))))
      else Inr (x, \<sigma>))"

text \<open>\<^verbatim>\<open>_reshape\<close>; the result of \<^verbatim>\<open>rearrange\<close> is a tensor of its own shape.\<close>

definition reshape :: "LitModel \<Rightarrow> tensor \<Rightarrow> error + tensor" where
  "reshape self x =
     (if model_name self = ''timesformer'' then rearrange x ''b t h w c -> b c t h w''
      else if model_name self = ''videomae'' then rearrange x ''b t h w c -> b t c h w''
      else Inr x)"

subsection \<open>Forward pass\<close>

text \<open>
  \<^verbatim>\<open>self.model(x)\<close>: the Hugging Face classifier wraps its logits in a structured
  result, the other two backbones return the tensor.
\<close>

definition call_model :: "externals \<Rightarrow> backbone \<Rightarrow> tensor \<Rightarrow> model_output" where
  "call_model ext m x =
     (case m of
        VideoMAE ckpt nf qb nl \<Rightarrow> ClassifierOutput (net ext m x)
      | _ \<Rightarrow> Tensor (net ext m x))"

text \<open>\<^verbatim>\<open>forward\<close>; a plain tensor has no attribute \<^verbatim>\<open>logits\<close>.\<close>

definition forward :: "externals \<Rightarrow> LitModel \<Rightarrow> tensor \<Rightarrow> error + model_output" where
  "forward ext self x =
     (let logits = call_model ext (model self) x in
      if model_name self = ''videomae'' then
        (case logits of
           ClassifierOutput l \<Rightarrow> Inr (Tensor l)
         | Tensor t \<Rightarrow> Inl AttributeError)
      else Inr logits)"

subsection \<open>Steps and epoch ends\<close>

text \<open>
  \<^verbatim>\<open>training_step\<close> returns the loss; the object it leaves behind has the five training
  accumulators updated and six values logged.  The five metric calls get the same
  arguments, so the first of them raises when any does.
\<close>

definition training_step ::
  "externals \<Rightarrow> LitModel \<Rightarrow> tensor \<times> int list \<Rightarrow> error + (rat \<times> LitModel)" where
  "training_step ext self batch =
     (case batch of (x, y) \<Rightarrow>
      case reshape self x of Inl e \<Rightarrow> Inl e | Inr x' \<Rightarrow>
      case forward ext self x' of Inl e \<Rightarrow> Inl e | Inr out \<Rightarrow>
      case select_col0 out of Inl e \<Rightarrow> Inl e | Inr y_hat \<Rightarrow>
        let loss = criterion self y_hat (map of_int y);
            probs = map_tensor (sigmoid ext) y_hat
        in case binary_stat_scores (sigmoid ext) probs y of Inl e \<Rightarrow> Inl e | Inr st \<Rightarrow>
        let (train_acc, a) = metric_forward (train_accuracy self) st;
            (train_prec, p) = metric_forward (train_precision self) st;
            (train_rec, r) = metric_forward (train_recall self) st;
            (train_f1v, f) = metric_forward (train_f1 self) st;
            (train_iouv, j) = metric_forward (train_iou self) st
        in Inr (loss,
                self \<lparr> train_accuracy := a, train_precision := p, train_recall := r,
                       train_f1 := f, train_iou := j,
                       logged := logged self @
                         [(''train_loss_step'', loss), (''train_acc_step'', train_acc),
                          (''train_prec_step'', train_prec), (''train_rec_step'', train_rec),
                          (''train_f1_step'', train_f1v), (''train_iou_step'', train_iouv)] \<rparr>))"

definition training_epoch_end :: "LitModel \<Rightarrow> LitModel" where
  "training_epoch_end self =
     self \<lparr> train_accuracy := metric_reset (train_accuracy self),
            train_precision := metric_reset (train_precision self),
            train_recall := metric_reset (train_recall self),
            train_f1 := metric_reset (train_f1 self),
            train_iou := metric_reset (train_iou self) \<rparr>"

text \<open>
  \<^verbatim>\<open>validation_step\<close> returns a dict, here the list of its items in the order of the
  source; the dict's entries for the metrics are what \<^verbatim>\<open>update\<close> returned.
\<close>

definition validation_step ::
  "externals \<Rightarrow> LitModel \<Rightarrow> tensor \<times> int list \<Rightarrow> error + ((string \<times> pyval) list \<times> LitModel)" where
  "validation_step ext self batch =
     (case batch of (x, y) \<Rightarrow>
      case reshape self x of Inl e \<Rightarrow> Inl e | Inr x' \<Rightarrow>
      case forward ext self x' of Inl e \<Rightarrow> Inl e | Inr out \<Rightarrow>
      case select_col0 out of Inl e \<Rightarrow> Inl e | Inr y_hat \<Rightarrow>
        let loss = criterion self y_hat (map of_int y);
            probs = map_tensor (sigmoid ext) y_hat
        in case binary_stat_scores (sigmoid ext) probs y of Inl e \<Rightarrow> Inl e | Inr st \<Rightarrow>
        let (val_acc, a) = metric_update (val_accuracy self) st;
            (val_prec, p) = metric_update (val_precision self) st;
            (val_rec, r) = metric_update (val_recall self) st;
            (val_iouv, j) = metric_update (val_iou self) st;
            (val_f1v, f) = metric_update (val_f1 self) st
        in Inr ([(''loss'', PFloat loss), (''acc'', val_acc), (''rec'', val_rec),
                 (''prec'', val_prec), (''f1'', val_f1v), (''iou'', val_iouv)],
                self \<lparr> val_accuracy := a, val_precision := p, val_recall := r,
                       val_iou := j, val_f1 := f,
                       logged := logged self @ [(''val_loss'', loss)] \<rparr>))"

definition validation_epoch_end :: "LitModel \<Rightarrow> LitModel" where
  "validation_epoch_end self =
     (let acc = metric_compute (val_accuracy self);
          self1 = self \<lparr> logged := logged self @ [(''val_acc'', acc)] \<rparr>;
          self2 = self1 \<lparr> logged := logged self1 @
                             [(''val_prec'', metric_compute (val_precision self1))] \<rparr>;
          self3 = self2 \<lparr> logged := logged self2 @
                             [(''val_rec'', metric_compute (val_recall self2))] \<rparr>;
          self4 = self3 \<lparr> logged := logged self3 @
                             [(''val_f1'', metric_compute (val_f1 self3))] \<rparr>;
          self5 = self4 \<lparr> logged := logged self4 @
                             [(''val_iou'', metric_compute (val_iou self4))] \<rparr>;
          self6 = self5 \<lparr> val_accuracy := metric_reset (val_accuracy self5) \<rparr>;
          self7 = self6 \<lparr> val_precision := metric_reset (val_precision self6) \<rparr>;
          self8 = self7 \<lparr> val_recall := metric_reset (val_recall self7) \<rparr>;
          self9 = self8 \<lparr> val_f1 := metric_reset (val_f1 self8) \<rparr>
      in self9 \<lparr> val_iou := metric_reset (val_iou self9) \<rparr>)"

section \<open>Example objects\<close>

text \<open>
  A batch of four clips of one frame of one pixel with four channels (RGB and a keypoint
  channel); the element at clip \<open>b\<close>, channel \<open>c\<close> is \<open>10 b + c\<close>.
\<close>

definition example_video :: tensor where
  "example_video = \<lparr> dims = [4, 1, 1, 1, 4], elem = (\<lambda>i. of_nat (10 * (i ! 0) + i ! 4)) \<rparr>"

definition example_labels :: "int list" where
  "example_labels = [0, 1, 1, 0]"

text \<open>
  Stand-ins for the external parts: a network that returns one row per clip, as wide as
  the backbone's head, each entry of a row being the clip's first element; a rational
  squashing function in place of the sigmoid; and the squared error as the loss.
\<close>

definition example_ext :: externals where
  "example_ext =
     \<lparr> net = (\<lambda>m t. \<lparr> dims = [hd (dims t), head_width m],
                        elem = (\<lambda>i. elem t [hd i, 0, 0, 0, 0]) \<rparr>),
       sigmoid = (\<lambda>v. (1 + v / (1 + \<bar>v\<bar>)) / 2),
       loss_function = (\<lambda>name g yh y. sum_list (map2 (\<lambda>a b. (a - b) * (a - b)) (entries yh) y)) \<rparr>"

text \<open>
  The object built for the r2plus1 backbone with keypoints disabled, learning rate
  1e-4, no weight decay and the multi-step-lr schedule with milestones 5 and 10.
\<close>

definition example_self :: LitModel where
  "example_self =
     \<lparr> model_name = ''r2plus1'', learning_rate = 1 / 10000, weight_decay = 0,
       model = R2Plus1D 512 1,
       scheduler_name = ''multi-step-lr'', scheduler_milestones = [5, 10],
       scheduler_gamma = 1 / 10,
       criterion = loss_function example_ext ''bce'' 2,
       train_precision = new_metric Precision,
       train_accuracy = new_metric Accuracy,
       train_recall = new_metric Recall,
       train_f1 = new_metric F1Score,
       train_iou = new_metric JaccardIndex,
       val_precision = new_metric Precision,
       val_accuracy = new_metric Accuracy,
       val_recall = new_metric Recall,
       val_f1 = new_metric F1Score,
       val_iou = new_metric JaccardIndex,
       use_keypoints = PBool False, logged = [] \<rparr>"

text \<open>The same object built for the videomae backbone.\<close>

definition example_videomae :: LitModel where
  "example_videomae =
     example_self \<lparr> model_name := ''videomae'',
                    model := VideoMAE ''MCG-NJU/videomae-base-finetuned-ssv2'' 16 False 1 \<rparr>"

text \<open>The example batch in the layout (batch, time, channel, height, width).\<close>

definition example_video_btchw :: tensor where
  "example_video_btchw =
     \<lparr> dims = [4, 1, 4, 1, 1],
       elem = (\<lambda>i. elem example_video [i ! 0, i ! 1, i ! 3, i ! 4, i ! 2]) \<rparr>"

section \<open>Reshape is an axis permutation\<close>

lemma tokens_timesformer:
  "tokens [] ''b t h w c -> b c t h w'' =
     [''b'', ''t'', ''h'', ''w'', ''c'', ''->'', ''b'', ''c'', ''t'', ''h'', ''w'']"
  by simp

lemma tokens_videomae:
  "tokens [] ''b t h w c -> b t c h w'' =
     [''b'', ''t'', ''h'', ''w'', ''c'', ''->'', ''b'', ''t'', ''c'', ''h'', ''w'']"
  by simp

lemma tokens_timesformer_inv:
  "tokens [] ''b c t h w -> b t h w c'' =
     [''b'', ''c'', ''t'', ''h'', ''w'', ''->'', ''b'', ''t'', ''h'', ''w'', ''c'']"
  by simp

lemma tokens_videomae_inv:
  "tokens [] ''b t c h w -> b t h w c'' =
     [''b'', ''t'', ''c'', ''h'', ''w'', ''->'', ''b'', ''t'', ''h'', ''w'', ''c'']"
  by simp

lemma length5_cases:
  "length i = 5 \<Longrightarrow> \<exists>a b c d e. i = [a, b, c, d, e]"
  by (cases i; simp; cases "tl i"; simp; cases "tl (tl i)"; simp; cases "tl (tl (tl i))"; simp;
      cases "tl (tl (tl (tl i)))"; simp)

lemma rearrange_timesformer:
  "dims x = [B, T, H, W, C] \<Longrightarrow>
   rearrange x ''b t h w c -> b c t h w'' =
     Inr \<lparr> dims = [B, C, T, H, W],
           elem = (\<lambda>i. elem x [i ! 0, i ! 2, i ! 3, i ! 4, i ! 1]) \<rparr>"
  unfolding rearrange_def tokens_timesformer by (simp add: numeral_eq_Suc)

lemma rearrange_videomae:
  "dims x = [B, T, H, W, C] \<Longrightarrow>
   rearrange x ''b t h w c -> b t c h w'' =
     Inr \<lparr> dims = [B, T, C, H, W],
           elem = (\<lambda>i. elem x [i ! 0, i ! 1, i ! 3, i ! 4, i ! 2]) \<rparr>"
  unfolding rearrange_def tokens_videomae by (simp add: numeral_eq_Suc)

lemma rearrange_timesformer_inv:
  "dims y = [B, C, T, H, W] \<Longrightarrow>
   rearrange y ''b c t h w -> b t h w c'' =
     Inr \<lparr> dims = [B, T, H, W, C],
           elem = (\<lambda>i. elem y [i ! 0, i ! 4, i ! 1, i ! 2, i ! 3]) \<rparr>"
  unfolding rearrange_def tokens_timesformer_inv by (simp add: numeral_eq_Suc)

lemma rearrange_videomae_inv:
  "dims y = [B, T, C, H, W] \<Longrightarrow>
   rearrange y ''b t c h w -> b t h w c'' =
     Inr \<lparr> dims = [B, T, H, W, C],
           elem = (\<lambda>i. elem y [i ! 0, i ! 1, i ! 4, i ! 2, i ! 3]) \<rparr>"
  unfolding rearrange_def tokens_videomae_inv by (simp add: numeral_eq_Suc)


text \<open>
  C7.  For a tensor of shape (B,T,H,W,C), \<^verbatim>\<open>_reshape\<close> with the timesformer backbone
  returns the tensor of shape (B,C,T,H,W) whose element at (b,c,t,h,w) is the input's at
  (b,t,h,w,c); with the videomae backbone the tensor of shape (B,T,C,H,W) whose element
  at (b,t,c,h,w) is the input's at (b,t,h,w,c); with any other backbone name the input
  itself.  Rearranging the result with the inverse pattern gives back the input's shape
  and, at every index of five coordinates, the input's element.
\<close>

theorem reshape_axis_permutation:
  assumes "dims x = [B, T, H, W, C]"
  shows "(model_name self = ''timesformer'' \<longrightarrow>
           (\<exists>y. reshape self x = Inr y \<and> dims y = [B, C, T, H, W]
              \<and> (\<forall>b c t h w. elem y [b, c, t, h, w] = elem x [b, t, h, w, c])
              \<and> (\<exists>z. rearrange y ''b c t h w -> b t h w c'' = Inr z \<and> dims z = dims x
                     \<and> (\<forall>i. length i = 5 \<longrightarrow> elem z i = elem x i))))
       \<and> (model_name self = ''videomae'' \<longrightarrow>
           (\<exists>y. reshape self x = Inr y \<and> dims y = [B, T, C, H, W]
              \<and> (\<forall>b t c h w. elem y [b, t, c, h, w] = elem x [b, t, h, w, c])
              \<and> (\<exists>z. rearrange y ''b t c h w -> b t h w c'' = Inr z \<and> dims z = dims x
                     \<and> (\<forall>i. length i = 5 \<longrightarrow> elem z i = elem x i))))
       \<and> (model_name self \<noteq> ''timesformer'' \<and> model_name self \<noteq> ''videomae'' \<longrightarrow>
           reshape self x = Inr x)"
proof (intro conjI impI)
  assume n: "model_name self = ''timesformer''"
  let ?y = "\<lparr> dims = [B, C, T, H, W],
              elem = (\<lambda>i. elem x [i ! 0, i ! 2, i ! 3, i ! 4, i ! 1]) \<rparr>"
  let ?z = "\<lparr> dims = [B, T, H, W, C],
              elem = (\<lambda>i. elem ?y [i ! 0, i ! 4, i ! 1, i ! 2, i ! 3]) \<rparr>"
  have r: "reshape self x = Inr ?y"
    using n rearrange_timesformer [OF assms] by (simp add: reshape_def)
  have rt: "rearrange ?y ''b c t h w -> b t h w c'' = Inr ?z"
    by (rule rearrange_timesformer_inv) simp
  have same: "\<forall>i. length i = 5 \<longrightarrow> elem ?z i = elem x i"
  proof (intro allI impI)
    fix i :: "nat list" assume "length i = 5"
    then obtain a b c d e where "i = [a, b, c, d, e]"
      using length5_cases by blast
    then show "elem ?z i = elem x i" by simp
  qed
  show "\<exists>y. reshape self x = Inr y \<and> dims y = [B, C, T, H, W]
              \<and> (\<forall>b c t h w. elem y [b, c, t, h, w] = elem x [b, t, h, w, c])
              \<and> (\<exists>z. rearrange y ''b c t h w -> b t h w c'' = Inr z \<and> dims z = dims x
                     \<and> (\<forall>i. length i = 5 \<longrightarrow> elem z i = elem x i))"
    using r rt same assms by (intro exI [of _ ?y] conjI exI [of _ ?z]) simp_all
next
  assume n: "model_name self = ''videomae''"
  let ?y = "\<lparr> dims = [B, T, C, H, W],
              elem = (\<lambda>i. elem x [i ! 0, i ! 1, i ! 3, i ! 4, i ! 2]) \<rparr>"
  let ?z = "\<lparr> dims = [B, T, H, W, C],
              elem = (\<lambda>i. elem ?y [i ! 0, i ! 1, i ! 4, i ! 2, i ! 3]) \<rparr>"
  have r: "reshape self x = Inr ?y"
    using n rearrange_videomae [OF assms] by (simp add: reshape_def)
  have rt: "rearrange ?y ''b t c h w -> b t h w c'' = Inr ?z"
    by (rule rearrange_videomae_inv) simp
  have same: "\<forall>i. length i = 5 \<longrightarrow> elem ?z i = elem x i"
  proof (intro allI impI)
    fix i :: "nat list" assume "length i = 5"
    then obtain a b c d e where "i = [a, b, c, d, e]"
      using length5_cases by blast
    then show "elem ?z i = elem x i" by simp
  qed
  show "\<exists>y. reshape self x = Inr y \<and> dims y = [B, T, C, H, W]
              \<and> (\<forall>b t c h w. elem y [b, t, c, h, w] = elem x [b, t, h, w, c])
              \<and> (\<exists>z. rearrange y ''b t c h w -> b t h w c'' = Inr z \<and> dims z = dims x
                     \<and> (\<forall>i. length i = 5 \<longrightarrow> elem z i = elem x i))"
    using r rt same assms by (intro exI [of _ ?y] conjI exI [of _ ?z]) simp_all
next
  assume "model_name self \<noteq> ''timesformer'' \<and> model_name self \<noteq> ''videomae''"
  then show "reshape self x = Inr x" by (simp add: reshape_def)
qed

theorem reshape_axis_permutation_witness:
  "dims example_video = [4, 1, 1, 1, 4]
   \<and> (\<exists>self y. init example_ext ''timesformer'' ''weights.pth'' 1 (1 / 10000) 0 ''bce'' 2
                  ''multi-step-lr'' [5, 10] (1 / 10) (PBool True) = Inr self
        \<and> reshape self example_video = Inr y \<and> dims y = [4, 4, 1, 1, 1]
        \<and> elem y [2, 3, 0, 0, 0] = 23)"
proof -
  have d: "dims example_video = [4, 1, 1, 1, 4]"
    by (simp add: example_video_def)
  obtain self where s: "init example_ext ''timesformer'' ''weights.pth'' 1 (1 / 10000) 0 ''bce'' 2
                  ''multi-step-lr'' [5, 10] (1 / 10) (PBool True) = Inr self"
    and n: "model_name self = ''timesformer''"
    by (simp add: init_def configure_model_def in_chans_of_def py_eq_def)
  from reshape_axis_permutation [OF d, of self] n
  obtain y where "reshape self example_video = Inr y" "dims y = [4, 4, 1, 1, 1]"
    "\<forall>b c t h w. elem y [b, c, t, h, w] = elem example_video [b, t, h, w, c]"
    by blast
  then have "reshape self example_video = Inr y \<and> dims y = [4, 4, 1, 1, 1]
        \<and> elem y [2, 3, 0, 0, 0] = 23"
    by (simp add: example_video_def)
  with d s show ?thesis by blast
qed

section \<open>Normalisation\<close>

lemma py_in_01_bool: "py_in (PBool b) [PInt 0, PInt 1]"
  by (cases b) (simp_all add: py_in_def py_eq_def)

lemma py_in_01_only: "\<not> py_in (PStr s) [PInt 0, PInt 1]"
  by (simp add: py_in_def py_eq_def)

text \<open>
  C10.  When the keypoint mode is disabled or enabled (\<^verbatim>\<open>use_keypoints in [0, 1]\<close>) and
  the tensor has at least one axis, \<^verbatim>\<open>_normalize\<close> returns the very reference it was
  given and the store is changed at that reference only: the object the caller holds
  has, afterwards, each element of its first three entries along the leading axis
  lowered by 0.5, the same shape and every other element as before.  No fresh tensor
  is returned.
\<close>

theorem normalize_in_place:
  assumes "py_in (use_keypoints self) [PInt 0, PInt 1]" and "dims (\<sigma> x) = d # ds"
  shows "\<exists>\<sigma>'. normalize_tensor self x \<sigma> = Inr (x, \<sigma>')
           \<and> (\<forall>r. r \<noteq> x \<longrightarrow> \<sigma>' r = \<sigma> r)
           \<and> dims (\<sigma>' x) = dims (\<sigma> x)
           \<and> (\<forall>b r. b < min 3 d \<longrightarrow> elem (\<sigma>' x) (b # r) = elem (\<sigma> x) (b # r) - 1 / 2)
           \<and> (\<forall>b r. \<not> b < min 3 d \<longrightarrow> elem (\<sigma>' x) (b # r) = elem (\<sigma> x) (b # r))"
  using assms
  by (simp add: normalize_tensor_def getitem_to_def setitem_to_def sub_scalar_def)

theorem normalize_in_place_witness:
  "py_in (PBool True) [PInt 0, PInt 1] \<and> dims example_video = [4, 1, 1, 1, 4]
   \<and> (\<exists>self \<sigma>'. init example_ext ''r2plus1'' ''weights.pth'' 1 (1 / 10000) 0 ''bce'' 2
                  ''multi-step-lr'' [5, 10] (1 / 10) (PBool True) = Inr self
         \<and> normalize_tensor self 7 (\<lambda>r. example_video) = Inr (7, \<sigma>')
         \<and> elem (\<sigma>' 7) [1, 0, 0, 0, 2] = 23 / 2
         \<and> \<sigma>' 8 = example_video)"
proof -
  have d: "dims ((\<lambda>r. example_video) (7::nat)) = 4 # [1, 1, 1, 4]"
    by (simp add: example_video_def)
  obtain self where s: "init example_ext ''r2plus1'' ''weights.pth'' 1 (1 / 10000) 0 ''bce'' 2
                  ''multi-step-lr'' [5, 10] (1 / 10) (PBool True) = Inr self"
    and k: "use_keypoints self = PBool True"
    by (simp add: init_def configure_model_def)
  have p: "py_in (use_keypoints self) [PInt 0, PInt 1]"
    using k py_in_01_bool by simp
  from normalize_in_place [OF p d]
  obtain \<sigma>' where n: "normalize_tensor self 7 (\<lambda>r. example_video) = Inr (7, \<sigma>')"
    and o: "\<forall>r. r \<noteq> 7 \<longrightarrow> \<sigma>' r = example_video"
    and e: "\<forall>b r. b < min 3 4 \<longrightarrow> elem (\<sigma>' 7) (b # r) = elem example_video (b # r) - 1 / 2"
    by blast
  from e have "elem (\<sigma>' 7) [1, 0, 0, 0, 2] = 23 / 2"
    by (simp add: example_video_def)
  moreover from o have "\<sigma>' 8 = example_video" by simp
  ultimately show ?thesis
    using s n py_in_01_bool [of True] by (auto simp: example_video_def)
qed

text \<open>
  C3, evaluated on the example batch of shape (4,1,1,1,4) with keypoints enabled.  The
  slice \<^verbatim>\<open>x[:3]\<close> runs along the leading (batch) axis: the keypoint channel of clip 0
  goes from 3 to 5/2, and the first RGB channel of clip 3 stays 30.
\<close>

theorem normalize_slices_leading_axis:
  "\<exists>self \<sigma>'. init example_ext ''r2plus1'' ''weights.pth'' 1 (1 / 10000) 0 ''bce'' 2
                  ''multi-step-lr'' [5, 10] (1 / 10) (PBool True) = Inr self
         \<and> normalize_tensor self 0 (\<lambda>r. example_video) = Inr (0, \<sigma>')
         \<and> elem example_video [0, 0, 0, 0, 3] = 3
         \<and> elem (\<sigma>' 0) [0, 0, 0, 0, 3] = 5 / 2
         \<and> elem example_video [3, 0, 0, 0, 0] = 30
         \<and> elem (\<sigma>' 0) [3, 0, 0, 0, 0] = 30"
  by (simp add: init_def configure_model_def normalize_tensor_def py_in_def py_eq_def
      getitem_to_def setitem_to_def sub_scalar_def example_video_def)

section \<open>Construction and its dispatches\<close>

text \<open>
  C4.  \<^verbatim>\<open>configure_model\<close> binds the channel count 3 for the disabled mode, 4 for the
  enabled mode and 1 for \<^verbatim>\<open>"only"\<close>, and passes it to the timesformer backbone.  For a
  mode equal to none of the three no branch binds it and no check raises: the local
  stays unbound, which the interpreter reports (UnboundLocalError) only where the
  timesformer branch reads it, while r2plus1 and videomae are built without it.
\<close>

theorem in_chans_three_way:
  "in_chans_of (PBool False) = Some 3
   \<and> in_chans_of (PBool True) = Some 4
   \<and> in_chans_of (PStr ''only'') = Some 1
   \<and> configure_model ''timesformer'' p (PBool False) n
        = Inr (TimeSformer 224 1 n ''divided_space_time'' p 3)
   \<and> configure_model ''timesformer'' p (PBool True) n
        = Inr (TimeSformer 224 1 n ''divided_space_time'' p 4)
   \<and> configure_model ''timesformer'' p (PStr ''only'') n
        = Inr (TimeSformer 224 1 n ''divided_space_time'' p 1)
   \<and> (\<not> py_eq uk (PBool False) \<and> \<not> py_eq uk (PBool True) \<and> \<not> py_eq uk (PStr ''only'')
        \<longrightarrow> in_chans_of uk = None
          \<and> configure_model ''timesformer'' p uk n = Inl (UnboundLocalError ''in_chans'')
          \<and> configure_model ''r2plus1'' p uk n = Inr (R2Plus1D 512 1)
          \<and> configure_model ''videomae'' p uk n
               = Inr (VideoMAE ''MCG-NJU/videomae-base-finetuned-ssv2'' n False 1))"
  by (simp add: in_chans_of_def configure_model_def py_eq_def)

theorem in_chans_three_way_witness:
  "\<not> py_eq (PStr ''both'') (PBool False) \<and> \<not> py_eq (PStr ''both'') (PBool True)
   \<and> \<not> py_eq (PStr ''both'') (PStr ''only'')
   \<and> in_chans_of (PStr ''both'') = None
   \<and> configure_model ''timesformer'' ''weights.pth'' (PStr ''both'') 16
        = Inl (UnboundLocalError ''in_chans'')
   \<and> configure_model ''r2plus1'' ''weights.pth'' (PStr ''both'') 16 = Inr (R2Plus1D 512 1)"
proof -
  have h: "\<not> py_eq (PStr ''both'') (PBool False) \<and> \<not> py_eq (PStr ''both'') (PBool True)
      \<and> \<not> py_eq (PStr ''both'') (PStr ''only'')"
    by (simp add: py_eq_def)
  with in_chans_three_way [of "''weights.pth''" 16 "PStr ''both''"] show ?thesis
    by blast
qed

text \<open>
  C5, as stated, fails: the keypoint mode is a third dispatch with no default arm (a
  mode outside the three is accepted and r2plus1 is built), and an unknown backbone tag
  or scheduler name produces no object at all: the call ends in an UnboundLocalError.
\<close>

theorem dispatch_counterexample:
  "in_chans_of (PStr ''both'') = None
   \<and> configure_model ''r2plus1'' ''weights.pth'' (PStr ''both'') 16 = Inr (R2Plus1D 512 1)
   \<and> configure_model ''resnet'' ''weights.pth'' (PBool False) 16
        = Inl (UnboundLocalError ''model'')
   \<and> configure_scheduler (Adam (1 / 10000) 0) ''cosine'' [5, 10] (1 / 10)
        = Inl (UnboundLocalError ''scheduler'')"
  by (simp add: in_chans_of_def configure_model_def configure_scheduler_def py_eq_def)

lemma configure_model_unknown:
  "mname \<noteq> ''timesformer'' \<Longrightarrow> mname \<noteq> ''r2plus1'' \<Longrightarrow> mname \<noteq> ''videomae''
   \<Longrightarrow> configure_model mname p uk n = Inl (UnboundLocalError ''model'')"
  by (simp add: configure_model_def)

lemma configure_model_unbound_chans:
  "in_chans_of uk = None \<Longrightarrow>
     configure_model ''timesformer'' p uk n = Inl (UnboundLocalError ''in_chans'')
     \<and> configure_model ''r2plus1'' p uk n = Inr (R2Plus1D 512 1)
     \<and> configure_model ''videomae'' p uk n
          = Inr (VideoMAE ''MCG-NJU/videomae-base-finetuned-ssv2'' n False 1)"
  by (simp add: configure_model_def)

lemma configure_model_known:
  "(mname = ''timesformer'' \<and> in_chans_of uk \<noteq> None) \<or> mname = ''r2plus1''
     \<or> mname = ''videomae'' \<Longrightarrow> \<exists>m. configure_model mname p uk n = Inr m"
  by (elim disjE conjE) (simp_all add: configure_model_def, force)

text \<open>
  C5, amended.  Three dispatches have no default arm.  For every backbone tag outside
  timesformer, r2plus1 and videomae, \<^verbatim>\<open>configure_model\<close> (and with it the construction
  of the object) ends in UnboundLocalError for \<^verbatim>\<open>model\<close>; for every scheduler name other
  than multi-step-lr, \<^verbatim>\<open>configure_scheduler\<close> (and \<^verbatim>\<open>configure_optimizers\<close>) ends in
  UnboundLocalError for \<^verbatim>\<open>scheduler\<close>; for every keypoint mode that binds no channel
  count, the timesformer branch ends in UnboundLocalError for \<^verbatim>\<open>in_chans\<close> and the
  other two backbones are built.  The supported tags and the name multi-step-lr return
  an object.
\<close>

theorem unguarded_dispatch_raises:
  "(mname \<noteq> ''timesformer'' \<and> mname \<noteq> ''r2plus1'' \<and> mname \<noteq> ''videomae''
      \<longrightarrow> configure_model mname p uk n = Inl (UnboundLocalError ''model'')
        \<and> init ext mname p n lr wd lname fg sname ms g uk = Inl (UnboundLocalError ''model''))
   \<and> (sname \<noteq> ''multi-step-lr''
      \<longrightarrow> configure_scheduler opt sname ms g = Inl (UnboundLocalError ''scheduler'')
        \<and> (scheduler_name self = sname
             \<longrightarrow> configure_optimizers self = Inl (UnboundLocalError ''scheduler'')))
   \<and> (in_chans_of uk = None
      \<longrightarrow> configure_model ''timesformer'' p uk n = Inl (UnboundLocalError ''in_chans'')
        \<and> configure_model ''r2plus1'' p uk n = Inr (R2Plus1D 512 1)
        \<and> configure_model ''videomae'' p uk n
             = Inr (VideoMAE ''MCG-NJU/videomae-base-finetuned-ssv2'' n False 1))
   \<and> ((mname = ''timesformer'' \<and> in_chans_of uk \<noteq> None) \<or> mname = ''r2plus1''
        \<or> mname = ''videomae''
      \<longrightarrow> (\<exists>m. configure_model mname p uk n = Inr m))
   \<and> configure_scheduler opt ''multi-step-lr'' ms g = Inr (MultiStepLR opt ms g)"
proof (intro conjI impI)
  assume u: "mname \<noteq> ''timesformer'' \<and> mname \<noteq> ''r2plus1'' \<and> mname \<noteq> ''videomae''"
  then show c: "configure_model mname p uk n = Inl (UnboundLocalError ''model'')"
    by (simp add: configure_model_unknown)
  then show "init ext mname p n lr wd lname fg sname ms g uk = Inl (UnboundLocalError ''model'')"
    by (simp add: init_def)
next
  assume "sname \<noteq> ''multi-step-lr''"
  then show "configure_scheduler opt sname ms g = Inl (UnboundLocalError ''scheduler'')"
    by (simp add: configure_scheduler_def)
next
  assume "sname \<noteq> ''multi-step-lr''" and "scheduler_name self = sname"
  then show "configure_optimizers self = Inl (UnboundLocalError ''scheduler'')"
    by (simp add: configure_optimizers_def configure_scheduler_def)
next
  assume "in_chans_of uk = None"
  then show "configure_model ''timesformer'' p uk n = Inl (UnboundLocalError ''in_chans'')"
    and "configure_model ''r2plus1'' p uk n = Inr (R2Plus1D 512 1)"
    and "configure_model ''videomae'' p uk n
             = Inr (VideoMAE ''MCG-NJU/videomae-base-finetuned-ssv2'' n False 1)"
    using configure_model_unbound_chans by simp_all
next
  assume "(mname = ''timesformer'' \<and> in_chans_of uk \<noteq> None) \<or> mname = ''r2plus1''
        \<or> mname = ''videomae''"
  then show "\<exists>m. configure_model mname p uk n = Inr m"
    by (rule configure_model_known)
next
  show "configure_scheduler opt ''multi-step-lr'' ms g = Inr (MultiStepLR opt ms g)"
    by (simp add: configure_scheduler_def)
qed

theorem unguarded_dispatch_raises_witness:
  "configure_model ''resnet'' ''weights.pth'' (PInt 0) 16 = Inl (UnboundLocalError ''model'')
   \<and> configure_scheduler (Adam (1 / 10000) 0) ''cosine'' [5, 10] (1 / 10)
        = Inl (UnboundLocalError ''scheduler'')
   \<and> configure_model ''timesformer'' ''weights.pth'' (PInt 2) 16
        = Inl (UnboundLocalError ''in_chans'')
   \<and> (\<exists>m. configure_model ''timesformer'' ''weights.pth'' (PInt 0) 16 = Inr m)"
proof -
  have a: "''resnet'' \<noteq> ''timesformer'' \<and> ''resnet'' \<noteq> ''r2plus1'' \<and> ''resnet'' \<noteq> ''videomae''"
    by simp
  have b: "''cosine'' \<noteq> ''multi-step-lr''" by simp
  have c: "in_chans_of (PInt 2) = None" by (simp add: in_chans_of_def py_eq_def)
  have d: "(''timesformer'' = ''timesformer'' \<and> in_chans_of (PInt 0) \<noteq> None)
       \<or> ''timesformer'' = ''r2plus1'' \<or> ''timesformer'' = ''videomae''"
    by (simp add: in_chans_of_def py_eq_def)
  note t1 = unguarded_dispatch_raises [of "''resnet''" "''weights.pth''" "PInt 0" 16 example_ext
        "1 / 10000" 0 "''bce''" 2 "''cosine''" "[5, 10]" "1 / 10" "Adam (1 / 10000) 0"]
  note t2 = unguarded_dispatch_raises [of "''timesformer''" "''weights.pth''" "PInt 2" 16]
  note t3 = unguarded_dispatch_raises [of "''timesformer''" "''weights.pth''" "PInt 0" 16]
  have 1: "configure_model ''resnet'' ''weights.pth'' (PInt 0) 16
             = Inl (UnboundLocalError ''model'')"
    using t1 [THEN conjunct1, THEN mp, OF a, THEN conjunct1] .
  have 2: "configure_scheduler (Adam (1 / 10000) 0) ''cosine'' [5, 10] (1 / 10)
        = Inl (UnboundLocalError ''scheduler'')"
    using t1 [THEN conjunct2, THEN conjunct1, THEN mp, OF b, THEN conjunct1] .
  have 3: "configure_model ''timesformer'' ''weights.pth'' (PInt 2) 16
        = Inl (UnboundLocalError ''in_chans'')"
    using t2 [THEN conjunct2, THEN conjunct2, THEN conjunct1, THEN mp, OF c, THEN conjunct1] .
  have 4: "\<exists>m. configure_model ''timesformer'' ''weights.pth'' (PInt 0) 16 = Inr m"
    using t3 [THEN conjunct2, THEN conjunct2, THEN conjunct2, THEN conjunct1, THEN mp, OF d] .
  from 1 2 3 4 show ?thesis by (intro conjI)
qed

section \<open>The steps on the example batch\<close>

lemma example_init:
  "init example_ext ''r2plus1'' ''weights.pth'' 16 (1 / 10000) 0 ''bce'' 2
     ''multi-step-lr'' [5, 10] (1 / 10) (PBool False) = Inr example_self"
  by (simp add: init_def configure_model_def example_self_def)

lemma upt4: "[0..<4] = [0, 1, 2, 3]"
  by code_simp

lemma example_reshape: "reshape example_self example_video = Inr example_video"
  by (simp add: reshape_def example_self_def)

lemma entries_map_tensor: "entries (map_tensor f t) = map f (entries t)"
  by (simp add: entries_def map_tensor_def)

lemma dims_map_tensor: "dims (map_tensor f t) = dims t"
  by (simp add: map_tensor_def)

lemma example_head: "head_width (model example_self) = 1"
  by (simp add: example_self_def)

lemma example_select:
  "head_width m = 1 \<Longrightarrow>
     \<exists>y. select_col0 (Tensor (net example_ext m example_video)) = Inr y
       \<and> dims y = [4] \<and> entries y = [0, 10, 20, 30]"
  by (simp add: select_col0_def example_ext_def example_video_def entries_def upt4)

lemma example_forward:
  "forward example_ext example_self example_video
     = Inr (Tensor (net example_ext (model example_self) example_video))"
  by (simp add: forward_def call_model_def example_self_def)

lemma example_loss:
  "entries y = [0, 10, 20, 30] \<Longrightarrow>
     criterion example_self y (map of_int example_labels) = 1342"
  by (simp add: example_self_def example_ext_def example_labels_def)

lemma example_stats:
  "dims y = [4] \<Longrightarrow> entries y = [0, 10, 20, 30] \<Longrightarrow>
     binary_stat_scores (sigmoid example_ext) (map_tensor (sigmoid example_ext) y)
       example_labels = Inr (2, 1, 1, 0)"
  by (simp add: binary_stat_scores_def example_labels_def entries_map_tensor dims_map_tensor
      example_ext_def)

lemma example_fields:
  "train_precision example_self = new_metric Precision"
  "train_accuracy example_self = new_metric Accuracy"
  "train_recall example_self = new_metric Recall"
  "train_f1 example_self = new_metric F1Score"
  "train_iou example_self = new_metric JaccardIndex"
  "val_precision example_self = new_metric Precision"
  "val_accuracy example_self = new_metric Accuracy"
  "val_recall example_self = new_metric Recall"
  "val_f1 example_self = new_metric F1Score"
  "val_iou example_self = new_metric JaccardIndex"
  "logged example_self = []"
  by (simp_all add: example_self_def)

lemma example_validation_step:
  "\<exists>s. validation_step example_ext example_self (example_video, example_labels)
     = Inr ([(''loss'', PFloat 1342), (''acc'', PNone), (''rec'', PNone),
             (''prec'', PNone), (''f1'', PNone), (''iou'', PNone)], s)
     \<and> metric_compute (val_accuracy s) = 3 / 4 \<and> logged s = [(''val_loss'', 1342)]"
proof -
  obtain y where y: "select_col0 (Tensor (net example_ext (model example_self) example_video))
      = Inr y" "dims y = [4]" "entries y = [0, 10, 20, 30]"
    using example_select [OF example_head] by blast
  show ?thesis
    by (simp add: validation_step_def example_reshape example_forward y
      example_loss [OF y(3)] example_stats [OF y(2,3)] metric_update_def metric_compute_def
      example_fields new_metric_def safe_divide_def)
qed

lemma example_training_step:
  "\<exists>s. training_step example_ext example_self (example_video, example_labels) = Inr (1342, s)
     \<and> logged s = [(''train_loss_step'', 1342), (''train_acc_step'', 3 / 4),
                    (''train_prec_step'', 2 / 3), (''train_rec_step'', 1),
                    (''train_f1_step'', 4 / 5), (''train_iou_step'', 2 / 3)]"
proof -
  obtain y where y: "select_col0 (Tensor (net example_ext (model example_self) example_video))
      = Inr y" "dims y = [4]" "entries y = [0, 10, 20, 30]"
    using example_select [OF example_head] by blast
  show ?thesis
    by (simp add: training_step_def example_reshape example_forward y
      example_loss [OF y(3)] example_stats [OF y(2,3)] metric_forward_def metric_update_def
      example_fields new_metric_def safe_divide_def)
qed

section \<open>Epoch ends\<close>

lemma compute_after_reset: "metric_compute (metric_reset m) = 0"
  by (cases "kind m") (simp_all add: metric_compute_def metric_reset_def safe_divide_def)

text \<open>
  C6.  \<^verbatim>\<open>training_epoch_end\<close> logs nothing and leaves each of the five training
  accumulators reset.  \<^verbatim>\<open>validation_epoch_end\<close> logs, in the order accuracy, precision,
  recall, F1, IoU, the value computed from each validation accumulator as it was when
  the hook was entered (so before any reset), and leaves each of the five reset.
\<close>

theorem epoch_end_read_then_reset:
  "logged (training_epoch_end self) = logged self
   \<and> train_accuracy (training_epoch_end self) = metric_reset (train_accuracy self)
   \<and> train_precision (training_epoch_end self) = metric_reset (train_precision self)
   \<and> train_recall (training_epoch_end self) = metric_reset (train_recall self)
   \<and> train_f1 (training_epoch_end self) = metric_reset (train_f1 self)
   \<and> train_iou (training_epoch_end self) = metric_reset (train_iou self)
   \<and> logged (validation_epoch_end self) = logged self @
        [(''val_acc'', metric_compute (val_accuracy self)),
         (''val_prec'', metric_compute (val_precision self)),
         (''val_rec'', metric_compute (val_recall self)),
         (''val_f1'', metric_compute (val_f1 self)),
         (''val_iou'', metric_compute (val_iou self))]
   \<and> val_accuracy (validation_epoch_end self) = metric_reset (val_accuracy self)
   \<and> val_precision (validation_epoch_end self) = metric_reset (val_precision self)
   \<and> val_recall (validation_epoch_end self) = metric_reset (val_recall self)
   \<and> val_f1 (validation_epoch_end self) = metric_reset (val_f1 self)
   \<and> val_iou (validation_epoch_end self) = metric_reset (val_iou self)"
  by (simp add: training_epoch_end_def validation_epoch_end_def Let_def)

theorem epoch_end_read_then_reset_witness:
  "\<exists>d s. validation_step example_ext example_self (example_video, example_labels) = Inr (d, s)
     \<and> map_of (logged (validation_epoch_end s)) ''val_acc'' = Some (3 / 4)
     \<and> metric_compute (val_accuracy (validation_epoch_end s)) = 0"
proof -
  obtain d s where v: "validation_step example_ext example_self (example_video, example_labels)
      = Inr (d, s)"
    and a: "metric_compute (val_accuracy s) = 3 / 4" and l: "logged s = [(''val_loss'', 1342)]"
    using example_validation_step by blast
  note e = epoch_end_read_then_reset [of s]
  have "map_of (logged (validation_epoch_end s)) ''val_acc'' = Some (3 / 4)"
    using e a l by simp
  moreover have "metric_compute (val_accuracy (validation_epoch_end s)) = 0"
    using e compute_after_reset by simp
  ultimately show ?thesis using v by blast
qed

section \<open>Training and validation steps\<close>

lemma dispatch_reads_three_fields:
  assumes "model_name a = model_name b" and "use_keypoints a = use_keypoints b"
    and "model a = model b"
  shows "reshape a = reshape b \<and> normalize_tensor a = normalize_tensor b \<and> forward ext a = forward ext b"
  using assms by (intro conjI ext) (simp_all add: reshape_def normalize_tensor_def forward_def)

lemma training_step_fields:
  "training_step ext self b = Inr (l, s) \<Longrightarrow>
     model_name s = model_name self \<and> use_keypoints s = use_keypoints self \<and> model s = model self"
  by (auto simp: training_step_def Let_def split: sum.splits prod.splits)

lemma validation_step_fields:
  "validation_step ext self b = Inr (d, s) \<Longrightarrow>
     model_name s = model_name self \<and> use_keypoints s = use_keypoints self \<and> model s = model self"
  by (auto simp: validation_step_def Let_def split: sum.splits prod.splits)

lemma training_epoch_end_fields:
  "model_name (training_epoch_end self) = model_name self
   \<and> use_keypoints (training_epoch_end self) = use_keypoints self
   \<and> model (training_epoch_end self) = model self"
  by (simp add: training_epoch_end_def)

lemma validation_epoch_end_fields:
  "model_name (validation_epoch_end self) = model_name self
   \<and> use_keypoints (validation_epoch_end self) = use_keypoints self
   \<and> model (validation_epoch_end self) = model self"
  by (simp add: validation_epoch_end_def Let_def)

text \<open>
  C9.  No step and no epoch-end hook changes the backbone name, the keypoint mode or the
  backbone: whenever \<^verbatim>\<open>training_step\<close> or \<^verbatim>\<open>validation_step\<close> returns, and after
  \<^verbatim>\<open>training_epoch_end\<close> and \<^verbatim>\<open>validation_epoch_end\<close>, the three attributes are those
  of the object before the call, and so \<^verbatim>\<open>_reshape\<close>, \<^verbatim>\<open>_normalize\<close> and
  \<^verbatim>\<open>forward\<close> are the same functions as before.
\<close>

theorem backbone_selection_immutable:
  "(training_step ext self b = Inr (l, s1) \<longrightarrow>
      model_name s1 = model_name self \<and> use_keypoints s1 = use_keypoints self
      \<and> model s1 = model self
      \<and> reshape s1 = reshape self \<and> normalize_tensor s1 = normalize_tensor self
      \<and> forward ext s1 = forward ext self)
   \<and> (validation_step ext self b = Inr (d, s2) \<longrightarrow>
      model_name s2 = model_name self \<and> use_keypoints s2 = use_keypoints self
      \<and> model s2 = model self
      \<and> reshape s2 = reshape self \<and> normalize_tensor s2 = normalize_tensor self
      \<and> forward ext s2 = forward ext self)
   \<and> (model_name (training_epoch_end self) = model_name self
      \<and> use_keypoints (training_epoch_end self) = use_keypoints self
      \<and> model (training_epoch_end self) = model self
      \<and> reshape (training_epoch_end self) = reshape self
      \<and> normalize_tensor (training_epoch_end self) = normalize_tensor self
      \<and> forward ext (training_epoch_end self) = forward ext self)
   \<and> (model_name (validation_epoch_end self) = model_name self
      \<and> use_keypoints (validation_epoch_end self) = use_keypoints self
      \<and> model (validation_epoch_end self) = model self
      \<and> reshape (validation_epoch_end self) = reshape self
      \<and> normalize_tensor (validation_epoch_end self) = normalize_tensor self
      \<and> forward ext (validation_epoch_end self) = forward ext self)"
proof -
  have t: "training_step ext self b = Inr (l, s1) \<longrightarrow>
      model_name s1 = model_name self \<and> use_keypoints s1 = use_keypoints self
      \<and> model s1 = model self
      \<and> reshape s1 = reshape self \<and> normalize_tensor s1 = normalize_tensor self
      \<and> forward ext s1 = forward ext self"
    using training_step_fields [of ext self b l s1]
      dispatch_reads_three_fields [of s1 self ext] by blast
  have v: "validation_step ext self b = Inr (d, s2) \<longrightarrow>
      model_name s2 = model_name self \<and> use_keypoints s2 = use_keypoints self
      \<and> model s2 = model self
      \<and> reshape s2 = reshape self \<and> normalize_tensor s2 = normalize_tensor self
      \<and> forward ext s2 = forward ext self"
    using validation_step_fields [of ext self b d s2]
      dispatch_reads_three_fields [of s2 self ext] by blast
  have te: "model_name (training_epoch_end self) = model_name self
      \<and> use_keypoints (training_epoch_end self) = use_keypoints self
      \<and> model (training_epoch_end self) = model self
      \<and> reshape (training_epoch_end self) = reshape self
      \<and> normalize_tensor (training_epoch_end self) = normalize_tensor self
      \<and> forward ext (training_epoch_end self) = forward ext self"
    using training_epoch_end_fields [of self]
      dispatch_reads_three_fields [of "training_epoch_end self" self ext] by blast
  have ve: "model_name (validation_epoch_end self) = model_name self
      \<and> use_keypoints (validation_epoch_end self) = use_keypoints self
      \<and> model (validation_epoch_end self) = model self
      \<and> reshape (validation_epoch_end self) = reshape self
      \<and> normalize_tensor (validation_epoch_end self) = normalize_tensor self
      \<and> forward ext (validation_epoch_end self) = forward ext self"
    using validation_epoch_end_fields [of self]
      dispatch_reads_three_fields [of "validation_epoch_end self" self ext] by blast
  show ?thesis by (rule conjI [OF t conjI [OF v conjI [OF te ve]]])
qed

theorem backbone_selection_immutable_witness:
  "\<exists>s. training_step example_ext example_self (example_video, example_labels) = Inr (1342, s)
      \<and> model_name s = ''r2plus1'' \<and> use_keypoints s = PBool False \<and> model s = R2Plus1D 512 1"
proof -
  obtain s where t: "training_step example_ext example_self (example_video, example_labels)
      = Inr (1342, s)"
    using example_training_step by blast
  from backbone_selection_immutable [of example_ext example_self "(example_video, example_labels)"
      1342 s, THEN conjunct1, THEN mp, OF t]
  have "model_name s = model_name example_self \<and> use_keypoints s = use_keypoints example_self
      \<and> model s = model example_self"
    by blast
  then have "model_name s = ''r2plus1'' \<and> use_keypoints s = PBool False \<and> model s = R2Plus1D 512 1"
    by (simp add: example_self_def)
  with t show ?thesis by blast
qed

lemma forward_agrees:
  "net ext2 (model self) x' = net ext (model self) x' \<Longrightarrow>
     forward ext2 self x' = forward ext self x'"
  by (cases "model self") (simp_all add: forward_def call_model_def)

lemma forward_Tensor_net:
  "forward ext self x' = Inr (Tensor t) \<Longrightarrow> t = net ext (model self) x'"
  by (auto simp: forward_def call_model_def Let_def split: backbone.splits if_splits model_output.splits)

lemma select_col0_Inr: "select_col0 out = Inr y \<Longrightarrow> \<exists>t. out = Tensor t"
  by (cases out) (simp_all add: select_col0_def)

lemma training_step_loss:
  assumes "reshape self x = Inr x'" and "training_step ext self (x, y) = Inr (l, s)"
  shows "\<exists>y_hat. select_col0 (Tensor (net ext (model self) x')) = Inr y_hat
           \<and> l = criterion self y_hat (map of_int y)"
proof -
  from assms obtain out y_hat where f: "forward ext self x' = Inr out"
    and c: "select_col0 out = Inr y_hat" and l: "l = criterion self y_hat (map of_int y)"
    by (auto simp: training_step_def Let_def split: sum.splits prod.splits)
  from c obtain t where "out = Tensor t" using select_col0_Inr by blast
  with f c l forward_Tensor_net show ?thesis by blast
qed

lemma validation_step_loss:
  assumes "reshape self x = Inr x'" and "validation_step ext self (x, y) = Inr (d, s)"
  shows "\<exists>y_hat. select_col0 (Tensor (net ext (model self) x')) = Inr y_hat
           \<and> map_of d ''loss'' = Some (PFloat (criterion self y_hat (map of_int y)))"
proof -
  from assms obtain out y_hat where f: "forward ext self x' = Inr out"
    and c: "select_col0 out = Inr y_hat"
    and l: "map_of d ''loss'' = Some (PFloat (criterion self y_hat (map of_int y)))"
    by (auto simp: validation_step_def Let_def split: sum.splits prod.splits)
  from c obtain t where "out = Tensor t" using select_col0_Inr by blast
  with f c l forward_Tensor_net show ?thesis by blast
qed

lemma steps_agree:
  assumes "reshape self x = Inr x'" and "net ext2 (model self) x' = net ext (model self) x'"
    and "sigmoid ext2 = sigmoid ext"
  shows "training_step ext2 self (x, y) = training_step ext self (x, y)
       \<and> validation_step ext2 self (x, y) = validation_step ext self (x, y)"
proof -
  note f = forward_agrees [OF assms(2)]
  show ?thesis
    unfolding training_step_def validation_step_def prod.case assms(1) sum.case f assms(3)
    by (rule conjI) (rule refl)+
qed

text \<open>
  C1, evaluated on the example batch.  \<^verbatim>\<open>validation_step\<close> returns a dict whose entry
  for the loss is the loss of the batch (1342), while the entries for accuracy, recall,
  precision, F1 and IoU are all \<^verbatim>\<open>None\<close>, the value \<^verbatim>\<open>update\<close> returns; the accuracy
  of this batch, which the accumulator holds afterwards, is 3/4.
\<close>

theorem validation_step_entries_are_None:
  "init example_ext ''r2plus1'' ''weights.pth'' 16 (1 / 10000) 0 ''bce'' 2
     ''multi-step-lr'' [5, 10] (1 / 10) (PBool False) = Inr example_self
   \<and> (\<exists>d s. validation_step example_ext example_self (example_video, example_labels) = Inr (d, s)
        \<and> map_of d ''loss'' = Some (PFloat 1342)
        \<and> map_of d ''acc'' = Some PNone
        \<and> map_of d ''rec'' = Some PNone
        \<and> map_of d ''prec'' = Some PNone
        \<and> map_of d ''f1'' = Some PNone
        \<and> map_of d ''iou'' = Some PNone
        \<and> metric_compute (val_accuracy s) = 3 / 4)"
proof -
  obtain s where "validation_step example_ext example_self (example_video, example_labels)
     = Inr ([(''loss'', PFloat 1342), (''acc'', PNone), (''rec'', PNone),
             (''prec'', PNone), (''f1'', PNone), (''iou'', PNone)], s)"
    and "metric_compute (val_accuracy s) = 3 / 4"
    using example_validation_step by blast
  then have "\<exists>d s. validation_step example_ext example_self (example_video, example_labels) = Inr (d, s)
        \<and> map_of d ''loss'' = Some (PFloat 1342)
        \<and> map_of d ''acc'' = Some PNone
        \<and> map_of d ''rec'' = Some PNone
        \<and> map_of d ''prec'' = Some PNone
        \<and> map_of d ''f1'' = Some PNone
        \<and> map_of d ''iou'' = Some PNone
        \<and> metric_compute (val_accuracy s) = 3 / 4"
    by simp
  with example_init show ?thesis by (rule conjI)
qed

lemma example_normalized_select:
  "head_width m = 1 \<Longrightarrow>
   \<exists>\<sigma>' y. normalize_tensor example_self 0 (\<lambda>r. example_video) = Inr (0, \<sigma>')
     \<and> select_col0 (Tensor (net example_ext m (\<sigma>' 0))) = Inr y
     \<and> entries y = [- 1 / 2, 19 / 2, 39 / 2, 30]"
  by (simp add: normalize_tensor_def py_in_def py_eq_def example_self_def getitem_to_def
      setitem_to_def sub_scalar_def select_col0_def example_ext_def example_video_def
      entries_def upt4)

lemma example_normalized_loss:
  "entries y = [- 1 / 2, 19 / 2, 39 / 2, 30] \<Longrightarrow>
     criterion example_self y (map of_int example_labels) = 5259 / 4"
  by (simp add: example_self_def example_ext_def example_labels_def)

lemma step_reshape_fails:
  "reshape self x = Inl e \<Longrightarrow>
     training_step ext self (x, y) = Inl e \<and> validation_step ext self (x, y) = Inl e"
  by (simp add: training_step_def validation_step_def)

text \<open>
  What a step does with its input.  When \<^verbatim>\<open>_reshape\<close> returns \<open>x'\<close>, the step depends on
  the network only through its value at \<open>x'\<close> (two networks that agree there give the
  same step), and the loss is the criterion applied to column 0 of the network's output
  at \<open>x'\<close> and to the float-cast labels; when \<^verbatim>\<open>_reshape\<close> raises, the step raises the
  same error.
\<close>

lemma steps_apply_reshape_only:
  "(reshape self x = Inr x' \<longrightarrow>
      (net ext2 (model self) x' = net ext (model self) x' \<and> sigmoid ext2 = sigmoid ext \<longrightarrow>
         training_step ext2 self (x, y) = training_step ext self (x, y)
         \<and> validation_step ext2 self (x, y) = validation_step ext self (x, y))
      \<and> (training_step ext self (x, y) = Inr (l, s) \<longrightarrow>
           (\<exists>y_hat. select_col0 (Tensor (net ext (model self) x')) = Inr y_hat
              \<and> l = criterion self y_hat (map of_int y)))
      \<and> (validation_step ext self (x, y) = Inr (d, s') \<longrightarrow>
           (\<exists>y_hat. select_col0 (Tensor (net ext (model self) x')) = Inr y_hat
              \<and> map_of d ''loss'' = Some (PFloat (criterion self y_hat (map of_int y))))))
   \<and> (reshape self x = Inl e \<longrightarrow>
        training_step ext self (x, y) = Inl e \<and> validation_step ext self (x, y) = Inl e)"
proof (intro conjI impI)
  assume "reshape self x = Inr x'"
    and "net ext2 (model self) x' = net ext (model self) x' \<and> sigmoid ext2 = sigmoid ext"
  then show "training_step ext2 self (x, y) = training_step ext self (x, y)"
    and "validation_step ext2 self (x, y) = validation_step ext self (x, y)"
    using steps_agree [of self x x' ext2 ext y] by simp_all
next
  assume "reshape self x = Inr x'" and "training_step ext self (x, y) = Inr (l, s)"
  then show "\<exists>y_hat. select_col0 (Tensor (net ext (model self) x')) = Inr y_hat
              \<and> l = criterion self y_hat (map of_int y)"
    by (rule training_step_loss)
next
  assume "reshape self x = Inr x'" and "validation_step ext self (x, y) = Inr (d, s')"
  then show "\<exists>y_hat. select_col0 (Tensor (net ext (model self) x')) = Inr y_hat
              \<and> map_of d ''loss'' = Some (PFloat (criterion self y_hat (map of_int y)))"
    by (rule validation_step_loss)
next
  assume "reshape self x = Inl e"
  then show "training_step ext self (x, y) = Inl e" and "validation_step ext self (x, y) = Inl e"
    using step_reshape_fails by simp_all
qed

lemma example_videomae_reshape:
  "reshape example_videomae example_video = Inr example_video_btchw"
proof -
  have "dims example_video = [4, 1, 1, 1, 4]" by (simp add: example_video_def)
  from rearrange_videomae [OF this] show ?thesis
    by (simp add: reshape_def example_videomae_def example_video_btchw_def)
qed

lemma example_videomae_head: "head_width (model example_videomae) = 1"
  by (simp add: example_videomae_def)

lemma example_videomae_forward:
  "forward example_ext example_videomae t
     = Inr (Tensor (net example_ext (model example_videomae) t))"
  by (simp add: forward_def call_model_def example_videomae_def)

lemma example_btchw_select:
  "head_width m = 1 \<Longrightarrow>
     \<exists>y. select_col0 (Tensor (net example_ext m example_video_btchw)) = Inr y
       \<and> dims y = [4] \<and> entries y = [0, 10, 20, 30]"
  by (simp add: select_col0_def example_ext_def example_video_btchw_def example_video_def
      entries_def upt4)

lemma example_videomae_fields:
  "criterion example_videomae = criterion example_self"
  "use_keypoints example_videomae = PBool False"
  "train_precision example_videomae = new_metric Precision"
  "train_accuracy example_videomae = new_metric Accuracy"
  "train_recall example_videomae = new_metric Recall"
  "train_f1 example_videomae = new_metric F1Score"
  "train_iou example_videomae = new_metric JaccardIndex"
  "logged example_videomae = []"
  by (simp_all add: example_videomae_def example_self_def)

lemma example_videomae_training_step:
  "\<exists>s. training_step example_ext example_videomae (example_video, example_labels)
         = Inr (1342, s)"
proof -
  obtain y where y: "select_col0 (Tensor (net example_ext (model example_videomae)
      example_video_btchw)) = Inr y" "dims y = [4]" "entries y = [0, 10, 20, 30]"
    using example_btchw_select [OF example_videomae_head] by blast
  show ?thesis
    by (simp add: training_step_def example_videomae_reshape example_videomae_forward y
      example_videomae_fields example_loss [OF y(3)] example_stats [OF y(2,3)]
      metric_forward_def metric_update_def new_metric_def safe_divide_def)
qed

lemma example_btchw_normalized_select:
  "head_width m = 1 \<Longrightarrow>
   \<exists>\<sigma>' y. normalize_tensor example_videomae 0 (\<lambda>r. example_video_btchw) = Inr (0, \<sigma>')
     \<and> select_col0 (Tensor (net example_ext m (\<sigma>' 0))) = Inr y
     \<and> entries y = [- 1 / 2, 19 / 2, 39 / 2, 30]"
  by (simp add: normalize_tensor_def py_in_def py_eq_def example_videomae_fields getitem_to_def
      setitem_to_def sub_scalar_def select_col0_def example_ext_def example_video_btchw_def
      example_video_def entries_def upt4)

text \<open>
  C2, evaluated on the example batch, for the r2plus1 object (where \<^verbatim>\<open>_reshape\<close> is the
  identity) and for the videomae object (where it permutes the axes).  The steps call
  \<^verbatim>\<open>self.reshape\<close> and never \<^verbatim>\<open>self.normalize\<close>, which the constructor binds beside
  it: each step returns the loss 1342 of the reshaped input as it is, while the logits
  of the reshaped and then normalised input give the loss 5259/4.
\<close>

theorem steps_skip_normalize:
  "(\<exists>s. training_step example_ext example_self (example_video, example_labels) = Inr (1342, s))
   \<and> (\<exists>d s. validation_step example_ext example_self (example_video, example_labels)
                = Inr (d, s) \<and> map_of d ''loss'' = Some (PFloat 1342))
   \<and> (\<exists>\<sigma>' y. reshape example_self example_video = Inr example_video
        \<and> normalize_tensor example_self 0 (\<lambda>r. example_video) = Inr (0, \<sigma>')
        \<and> select_col0 (Tensor (net example_ext (model example_self) (\<sigma>' 0))) = Inr y
        \<and> criterion example_self y (map of_int example_labels) = 5259 / 4)
   \<and> (\<exists>s. training_step example_ext example_videomae (example_video, example_labels)
              = Inr (1342, s))
   \<and> (\<exists>\<sigma>' y. reshape example_videomae example_video = Inr example_video_btchw
        \<and> normalize_tensor example_videomae 0 (\<lambda>r. example_video_btchw) = Inr (0, \<sigma>')
        \<and> select_col0 (Tensor (net example_ext (model example_videomae) (\<sigma>' 0))) = Inr y
        \<and> criterion example_videomae y (map of_int example_labels) = 5259 / 4)"
proof -
  have a: "\<exists>s. training_step example_ext example_self (example_video, example_labels)
      = Inr (1342, s)"
    using example_training_step by blast
  have v: "\<exists>d s. validation_step example_ext example_self (example_video, example_labels)
                = Inr (d, s) \<and> map_of d ''loss'' = Some (PFloat 1342)"
  proof -
    obtain s where "validation_step example_ext example_self (example_video, example_labels)
     = Inr ([(''loss'', PFloat 1342), (''acc'', PNone), (''rec'', PNone),
             (''prec'', PNone), (''f1'', PNone), (''iou'', PNone)], s)"
      using example_validation_step by blast
    then show ?thesis by simp
  qed
  obtain \<sigma>' y where "normalize_tensor example_self 0 (\<lambda>r. example_video) = Inr (0, \<sigma>')"
    and "select_col0 (Tensor (net example_ext (model example_self) (\<sigma>' 0))) = Inr y"
    and "entries y = [- 1 / 2, 19 / 2, 39 / 2, 30]"
    using example_normalized_select [OF example_head] by blast
  then have b: "\<exists>\<sigma>' y. reshape example_self example_video = Inr example_video
        \<and> normalize_tensor example_self 0 (\<lambda>r. example_video) = Inr (0, \<sigma>')
        \<and> select_col0 (Tensor (net example_ext (model example_self) (\<sigma>' 0))) = Inr y
        \<and> criterion example_self y (map of_int example_labels) = 5259 / 4"
    using example_reshape example_normalized_loss by blast
  obtain \<tau>' z where "normalize_tensor example_videomae 0 (\<lambda>r. example_video_btchw)
      = Inr (0, \<tau>')"
    and "select_col0 (Tensor (net example_ext (model example_videomae) (\<tau>' 0))) = Inr z"
    and "entries z = [- 1 / 2, 19 / 2, 39 / 2, 30]"
    using example_btchw_normalized_select [OF example_videomae_head] by blast
  then have c: "\<exists>\<sigma>' y. reshape example_videomae example_video = Inr example_video_btchw
        \<and> normalize_tensor example_videomae 0 (\<lambda>r. example_video_btchw) = Inr (0, \<sigma>')
        \<and> select_col0 (Tensor (net example_ext (model example_videomae) (\<sigma>' 0))) = Inr y
        \<and> criterion example_videomae y (map of_int example_labels) = 5259 / 4"
    using example_videomae_reshape example_normalized_loss example_videomae_fields(1) by auto
  from a v b example_videomae_training_step c show ?thesis by (intro conjI)
qed

section \<open>One logit per sample\<close>

lemma configure_model_Inr:
  "configure_model n p uk nf = Inr m \<Longrightarrow>
     (n = ''timesformer'' \<and> (\<exists>c. m = TimeSformer 224 1 nf ''divided_space_time'' p c))
     \<or> (n = ''r2plus1'' \<and> m = R2Plus1D 512 1)
     \<or> (n = ''videomae'' \<and> m = VideoMAE ''MCG-NJU/videomae-base-finetuned-ssv2'' nf False 1)"
  by (auto simp: configure_model_def split: if_splits option.splits)

lemma built_head_width:
  "configure_model n p uk nf = Inr m \<Longrightarrow> head_width m = 1"
  using configure_model_Inr [of n p uk nf m] by auto

lemma built_forward:
  assumes "configure_model (model_name self) p uk nf = Inr (model self)"
  shows "forward ext self x' = Inr (Tensor (net ext (model self) x'))
     \<and> (model_name self = ''videomae'' \<longrightarrow>
           call_model ext (model self) x' = ClassifierOutput (net ext (model self) x'))
     \<and> (model_name self \<noteq> ''videomae'' \<longrightarrow>
           call_model ext (model self) x' = Tensor (net ext (model self) x'))"
  using configure_model_Inr [OF assms]
  by (elim disjE conjE exE) (simp_all add: forward_def call_model_def)

lemma built_reshape:
  assumes "configure_model (model_name self) p uk nf = Inr (model self)"
    and "dims x = [B, T, H, W, C]"
  shows "\<exists>x'. reshape self x = Inr x' \<and> hd (dims x') = B"
proof -
  from configure_model_Inr [OF assms(1)]
  consider "model_name self = ''timesformer''" | "model_name self = ''r2plus1''"
    | "model_name self = ''videomae''" by blast
  then show ?thesis
  proof cases
    case 1
    then show ?thesis
      using rearrange_timesformer [OF assms(2)] by (simp add: reshape_def)
  next
    case 2
    then show ?thesis using assms(2) by (simp add: reshape_def)
  next
    case 3
    then show ?thesis
      using rearrange_videomae [OF assms(2)] by (simp add: reshape_def)
  qed
qed

lemma select_col0_column:
  assumes "dims t = [B, 1]"
  shows "\<exists>y_hat. select_col0 (Tensor t) = Inr y_hat \<and> dims y_hat = [B]
           \<and> (\<forall>k. elem y_hat [k] = elem t [k, 0])"
  using assms by (simp add: select_col0_def)

lemma stats_defined:
  "dims probs = [length y] \<Longrightarrow> list_all (\<lambda>v. v = 0 \<or> v = 1) y \<Longrightarrow>
     \<exists>st. binary_stat_scores sg probs y = Inr st"
  by (simp add: binary_stat_scores_def Let_def)

lemma training_step_returns:
  assumes "reshape self x = Inr x'" and "forward ext self x' = Inr out"
    and "select_col0 out = Inr y_hat"
    and "binary_stat_scores (sigmoid ext) (map_tensor (sigmoid ext) y_hat) y = Inr st"
  shows "\<exists>s. training_step ext self (x, y) = Inr (criterion self y_hat (map of_int y), s)"
  using assms by (simp add: training_step_def Let_def split_beta)

lemma validation_step_returns:
  assumes "reshape self x = Inr x'" and "forward ext self x' = Inr out"
    and "select_col0 out = Inr y_hat"
    and "binary_stat_scores (sigmoid ext) (map_tensor (sigmoid ext) y_hat) y = Inr st"
  shows "\<exists>d s. validation_step ext self (x, y) = Inr (d, s)
           \<and> map_of d ''loss'' = Some (PFloat (criterion self y_hat (map of_int y)))"
  using assms by (simp add: validation_step_def Let_def split_beta)

text \<open>
  C8.  Take an object whose backbone \<^verbatim>\<open>configure_model\<close> built for its name (any of the
  three supported backbones), a batch of shape (B,T,H,W,C) with B labels, each 0 or 1,
  and a network that returns, for each backbone, one row per sample as wide as the
  backbone's head.  Then the head \<^verbatim>\<open>configure_model\<close> has built is one output wide, so
  the logits have shape (B,1); \<^verbatim>\<open>forward\<close> returns them as a plain tensor, taken out of
  the structured result for videomae and being the raw result for the other backbones;
  column 0 of them is a tensor of shape (B) holding the logit of each sample; and both
  steps return, with the loss computed from that column and the float-cast labels.
\<close>

theorem forward_one_logit_per_sample:
  assumes "configure_model (model_name self) p uk nf = Inr (model self)"
    and "dims x = [B, T, H, W, C]"
    and "\<forall>m t. dims (net ext m t) = [hd (dims t), head_width m]"
    and "length y = B" and "list_all (\<lambda>v. v = 0 \<or> v = 1) y"
  shows "\<exists>x' logits y_hat. reshape self x = Inr x'
     \<and> logits = net ext (model self) x'
     \<and> dims logits = [B, 1]
     \<and> (model_name self = ''videomae'' \<longrightarrow>
           call_model ext (model self) x' = ClassifierOutput logits)
     \<and> (model_name self \<noteq> ''videomae'' \<longrightarrow> call_model ext (model self) x' = Tensor logits)
     \<and> forward ext self x' = Inr (Tensor logits)
     \<and> select_col0 (Tensor logits) = Inr y_hat
     \<and> dims y_hat = [B]
     \<and> (\<forall>k. elem y_hat [k] = elem logits [k, 0])
     \<and> (\<exists>s. training_step ext self (x, y) = Inr (criterion self y_hat (map of_int y), s))
     \<and> (\<exists>d s. validation_step ext self (x, y) = Inr (d, s)
           \<and> map_of d ''loss'' = Some (PFloat (criterion self y_hat (map of_int y))))"
proof -
  obtain x' where r: "reshape self x = Inr x'" and b: "hd (dims x') = B"
    using built_reshape [OF assms(1,2)] by blast
  let ?t = "net ext (model self) x'"
  have w: "head_width (model self) = 1"
    using built_head_width [OF assms(1)] .
  have dt: "dims ?t = [B, 1]" using assms(3) b w by simp
  then obtain y_hat where c: "select_col0 (Tensor ?t) = Inr y_hat" and d: "dims y_hat = [B]"
    and e: "\<forall>k. elem y_hat [k] = elem ?t [k, 0]"
    using select_col0_column by blast
  note f = built_forward [OF assms(1), of ext x']
  have fw: "forward ext self x' = Inr (Tensor ?t)" using f by blast
  have "dims (map_tensor (sigmoid ext) y_hat) = [length y]"
    using d assms(4) by (simp add: dims_map_tensor)
  then obtain st where st: "binary_stat_scores (sigmoid ext) (map_tensor (sigmoid ext) y_hat) y
      = Inr st"
    using stats_defined [OF _ assms(5)] by blast
  note tr = training_step_returns [OF r fw c st]
  note va = validation_step_returns [OF r fw c st]
  from r dt f c d e tr va show ?thesis
    by (intro exI [of _ x'] exI [of _ ?t] exI [of _ y_hat]) simp
qed

theorem forward_one_logit_per_sample_witness:
  "configure_model (model_name example_videomae) ''weights.pth'' (PBool False) 16
      = Inr (model example_videomae)
   \<and> dims example_video = [4, 1, 1, 1, 4]
   \<and> (\<forall>m t. dims (net example_ext m t) = [hd (dims t), head_width m])
   \<and> length example_labels = 4
   \<and> list_all (\<lambda>v. v = 0 \<or> v = 1) example_labels
   \<and> (\<exists>s. training_step example_ext example_videomae (example_video, example_labels)
              = Inr (1342, s))"
proof -
  have a: "configure_model (model_name example_videomae) ''weights.pth'' (PBool False) 16
      = Inr (model example_videomae)"
    by (simp add: configure_model_def example_videomae_def)
  have b: "dims example_video = [4, 1, 1, 1, 4]" by (simp add: example_video_def)
  have c: "\<forall>m t. dims (net example_ext m t) = [hd (dims t), head_width m]"
    by (simp add: example_ext_def)
  have d: "length example_labels = 4" by (simp add: example_labels_def)
  have e: "list_all (\<lambda>v. v = 0 \<or> v = 1) example_labels" by (simp add: example_labels_def)
  from forward_one_logit_per_sample [OF a b c d e]
  obtain x' y_hat s where r: "reshape example_videomae example_video = Inr x'"
    and k: "\<forall>k. elem y_hat [k] = elem (net example_ext (model example_videomae) x') [k, 0]"
    and dy: "dims y_hat = [4]"
    and t: "training_step example_ext example_videomae (example_video, example_labels)
      = Inr (criterion example_videomae y_hat (map of_int example_labels), s)"
    by blast
  from r example_videomae_reshape have x': "x' = example_video_btchw" by simp
  have "entries y_hat = [0, 10, 20, 30]"
    using k dy
    by (simp add: entries_def upt4 x' example_ext_def example_video_btchw_def example_video_def)
  then have "criterion example_videomae y_hat (map of_int example_labels) = 1342"
    using example_loss example_videomae_fields(1) by simp
  with t have "\<exists>s. training_step example_ext example_videomae (example_video, example_labels)
              = Inr (1342, s)"
    by auto
  with a b c d e show ?thesis by (intro conjI)
qed

end
